theory Spec2Isabelle
  imports Main
begin

section \<open>The platform's URL object\<close>

text \<open>
  \<^verbatim>\<open>parseUrl\<close> calls the platform's constructor \<^verbatim>\<open>new URL(inputUrl)\<close>. The
  constructor is not code of the repository, so \<^verbatim>\<open>parseUrl\<close> takes it as a parameter:
  a function from the input string to either the value thrown or the URL object. The
  object's \<^verbatim>\<open>searchParams\<close> is the ordered list of key/value pairs that
  \<^verbatim>\<open>forEach\<close> visits.
\<close>

record URL =
  url_href :: string
  url_protocol :: string
  url_username :: string
  url_password :: string
  url_host :: string
  url_hostname :: string
  url_port :: string
  url_pathname :: string
  url_search :: string
  url_searchParams :: "(string \<times> string) list"
  url_hash :: string

text \<open>
  What a \<^verbatim>\<open>catch\<close> clause can receive: an instance of \<^verbatim>\<open>Error\<close> with its
  message, or any other value.
\<close>

datatype thrown = Error_instance string | Non_Error

section \<open>ParsedURL\<close>

text \<open>
  \<^verbatim>\<open>interface ParsedURL\<close>: every field is optional. \<^verbatim>\<open>searchParams\<close> is a plain
  object (\<^verbatim>\<open>Record<string, string>\<close>), kept as its own properties in insertion order.
\<close>

record ParsedURL =
  href :: "string option"
  auth :: "string option"
  protocol :: "string option"
  username :: "string option"
  password :: "string option"
  host :: "string option"
  hostname :: "string option"
  port :: "string option"
  pathname :: "string option"
  search :: "string option"
  searchParams :: "(string \<times> string) list option"
  hash :: "string option"
  error :: "string option"

subsection \<open>Plain objects\<close>

text \<open>
  \<^verbatim>\<open>obj[key] = value\<close> on an object created by \<^verbatim>\<open>{}\<close>, for a string value. An own
  property keeps its place when it is overwritten; a new one goes last. The key
  \<^verbatim>\<open>__proto__\<close> is never stored: the assignment reaches the setter inherited from
  \<^verbatim>\<open>Object.prototype\<close>, which ignores a value that is neither an object nor null.
\<close>

fun own_set :: "(string \<times> string) list \<Rightarrow> string \<Rightarrow> string \<Rightarrow> (string \<times> string) list" where
  "own_set [] k v = [(k, v)]"
| "own_set ((k', v') # ps) k v = (if k' = k then (k, v) # ps else (k', v') # own_set ps k v)"

definition assign :: "(string \<times> string) list \<Rightarrow> string \<Rightarrow> string \<Rightarrow> (string \<times> string) list" where
  "assign obj k v = (if k = ''__proto__'' then obj else own_set obj k v)"

text \<open>The names every plain object inherits from \<^verbatim>\<open>Object.prototype\<close>.\<close>

definition Object_prototype :: "string list" where
  "Object_prototype =
     [''constructor'', ''hasOwnProperty'', ''isPrototypeOf'', ''propertyIsEnumerable'',
      ''toLocaleString'', ''toString'', ''valueOf'', ''__proto__'',
      ''__defineGetter__'', ''__defineSetter__'', ''__lookupGetter__'', ''__lookupSetter__'']"

text \<open>
  The values a property read can give here: \<^verbatim>\<open>undefined\<close>, \<^verbatim>\<open>null\<close>, a string, or
  the object inherited from \<^verbatim>\<open>Object.prototype\<close> under a name (the same object for
  every plain object, so two reads of one inherited name are \<^verbatim>\<open>===\<close>).
\<close>

datatype jsval = Undefined | Null | Str string | Inherited string

definition get_prop :: "(string \<times> string) list \<Rightarrow> string \<Rightarrow> jsval" where
  "get_prop obj k =
     (case map_of obj k of
        Some v \<Rightarrow> Str v
      | None \<Rightarrow> if k \<in> set Object_prototype then Inherited k else Undefined)"

text \<open>\<^verbatim>\<open>Object.keys(obj)\<close>, in insertion order.\<close>

definition Object_keys :: "(string \<times> string) list \<Rightarrow> string list" where
  "Object_keys obj = map fst obj"

section \<open>parseUrl\<close>

text \<open>
  The \<^verbatim>\<open>forEach\<close> loop of \<^verbatim>\<open>parseUrl\<close>:
  \<^verbatim>\<open>parsed.searchParams.forEach((value, key) => { searchParams[key] = value; })\<close>
  starting from \<^verbatim>\<open>{}\<close>.
\<close>

definition collect_searchParams :: "(string \<times> string) list \<Rightarrow> (string \<times> string) list" where
  "collect_searchParams pairs = fold (\<lambda>(key, value) obj. assign obj key value) pairs []"

definition error_message :: "thrown \<Rightarrow> string" where
  "error_message e = (case e of Error_instance m \<Rightarrow> m | Non_Error \<Rightarrow> ''Unknown error'')"

definition failure :: "string \<Rightarrow> ParsedURL" where
  "failure msg =
     \<lparr>href = None, auth = None, protocol = None, username = None, password = None,
      host = None, hostname = None, port = None, pathname = None, search = None,
      searchParams = None, hash = None, error = Some msg\<rparr>"

text \<open>\<^verbatim>\<open>parseUrl\<close> of the multi-URL component with the DiffChecker view, which adds \<^verbatim>\<open>auth\<close>.\<close>

definition parseUrl :: "(string \<Rightarrow> thrown + URL) \<Rightarrow> string \<Rightarrow> ParsedURL" where
  "parseUrl new_URL inputUrl =
     (case new_URL inputUrl of
        Inr parsed \<Rightarrow>
          (let sp = collect_searchParams (url_searchParams parsed);
               a = (if url_username parsed \<noteq> [] \<or> url_password parsed \<noteq> []
                    then url_username parsed
                         @ (if url_password parsed \<noteq> [] then '':'' @ url_password parsed else [])
                         @ ''@''
                    else [])
           in \<lparr>href = Some (url_href parsed), auth = Some a,
               protocol = Some (url_protocol parsed),
               username = Some (url_username parsed), password = Some (url_password parsed),
               host = Some (url_host parsed), hostname = Some (url_hostname parsed),
               port = Some (url_port parsed), pathname = Some (url_pathname parsed),
               search = Some (url_search parsed), searchParams = Some sp,
               hash = Some (url_hash parsed), error = None\<rparr>)
      | Inl e \<Rightarrow> failure (error_message e))"

text \<open>\<^verbatim>\<open>parseUrl\<close> of \<^verbatim>\<open>src/URLParser.tsx\<close>: the same, without \<^verbatim>\<open>auth\<close>.\<close>

definition parseUrl_URLParser :: "(string \<Rightarrow> thrown + URL) \<Rightarrow> string \<Rightarrow> ParsedURL" where
  "parseUrl_URLParser new_URL inputUrl =
     (case new_URL inputUrl of
        Inr parsed \<Rightarrow>
          (let sp = collect_searchParams (url_searchParams parsed)
           in \<lparr>href = Some (url_href parsed), auth = None,
               protocol = Some (url_protocol parsed),
               username = Some (url_username parsed), password = Some (url_password parsed),
               host = Some (url_host parsed), hostname = Some (url_hostname parsed),
               port = Some (url_port parsed), pathname = Some (url_pathname parsed),
               search = Some (url_search parsed), searchParams = Some sp,
               hash = Some (url_hash parsed), error = None\<rparr>)
      | Inl e \<Rightarrow> failure (error_message e))"

section \<open>Structural diffs\<close>

text \<open>
  The string-valued keys of \<^verbatim>\<open>ParsedURL\<close>; the diff functions are only ever called with
  these (never with \<^verbatim>\<open>searchParams\<close>). \<open>get_field url key\<close> is \<^verbatim>\<open>url[key]\<close>.
\<close>

datatype key =
  Href | Auth | Protocol | Username | Password | Host | Hostname | Port | Pathname
  | Search | Hash | Error

fun get_field :: "ParsedURL \<Rightarrow> key \<Rightarrow> string option" where
  "get_field url Href = href url"
| "get_field url Auth = auth url"
| "get_field url Protocol = protocol url"
| "get_field url Username = username url"
| "get_field url Password = password url"
| "get_field url Host = host url"
| "get_field url Hostname = hostname url"
| "get_field url Port = port url"
| "get_field url Pathname = pathname url"
| "get_field url Search = search url"
| "get_field url Hash = hash url"
| "get_field url Error = error url"

text \<open>\<^verbatim>\<open>Array.prototype.reduce\<close> with an initial value; the callback gets the index.\<close>

fun reduce_from :: "('b \<Rightarrow> 'a \<Rightarrow> nat \<Rightarrow> 'b) \<Rightarrow> 'b \<Rightarrow> nat \<Rightarrow> 'a list \<Rightarrow> 'b" where
  "reduce_from f acc i [] = acc"
| "reduce_from f acc i (x # xs) = reduce_from f (f acc x i) (Suc i) xs"

definition reduce :: "('b \<Rightarrow> 'a \<Rightarrow> nat \<Rightarrow> 'b) \<Rightarrow> 'b \<Rightarrow> 'a list \<Rightarrow> 'b" where
  "reduce f init xs = reduce_from f init 0 xs"

text \<open>\<^verbatim>\<open>values[0]\<close>: \<^verbatim>\<open>undefined\<close> (here \<open>None\<close>) on the empty array.\<close>

definition first :: "'a list \<Rightarrow> 'a option" where
  "first xs = (case xs of [] \<Rightarrow> None | x # _ \<Rightarrow> Some x)"

text \<open>\<^verbatim>\<open>url[key] || "-"\<close>: \<^verbatim>\<open>undefined\<close> and the empty string are falsy.\<close>

definition or_dash :: "string option \<Rightarrow> string" where
  "or_dash v = (case v of None \<Rightarrow> ''-'' | Some s \<Rightarrow> if s = [] then ''-'' else s)"

text \<open>\<^verbatim>\<open>url[key] !== undefined ? url[key] : ""\<close>.\<close>

definition or_empty :: "string option \<Rightarrow> string" where
  "or_empty v = (case v of None \<Rightarrow> [] | Some s \<Rightarrow> s)"

text \<open>\<^verbatim>\<open>getDiffMap\<close> of \<^verbatim>\<open>src/URLParser.tsx\<close>, with the component's \<^verbatim>\<open>parsedUrls\<close> passed in.\<close>

definition getDiffMap :: "ParsedURL list \<Rightarrow> key \<Rightarrow> (nat \<rightharpoonup> bool)" where
  "getDiffMap parsedUrls k =
     (let vals = map (\<lambda>url. or_dash (get_field url k)) parsedUrls;
          baseValue = first vals
      in reduce (\<lambda>m val i. m(i \<mapsto> (Some val \<noteq> baseValue))) Map.empty vals)"

text \<open>\<^verbatim>\<open>getComponentDiffs\<close> of the DiffChecker component.\<close>

definition getComponentDiffs :: "ParsedURL list \<Rightarrow> key \<Rightarrow> (nat \<rightharpoonup> bool)" where
  "getComponentDiffs parsedUrls k =
     (if length parsedUrls = 0 then Map.empty
      else
        let vals = map (\<lambda>url. or_empty (get_field url k)) parsedUrls;
            baseValue = first vals
        in reduce (\<lambda>m val i. m(i \<mapsto> (Some val \<noteq> baseValue))) Map.empty vals)"

text \<open>The keys each view compares.\<close>

definition componentsToCompare :: "key list" where
  "componentsToCompare = [Protocol, Auth, Hostname, Port, Pathname, Search, Hash]"

definition colorMap_keys :: "key list" where
  "colorMap_keys = [Protocol, Username, Password, Hostname, Port, Pathname, Search, Hash]"

section \<open>Query-parameter diffs\<close>

text \<open>
  \<^verbatim>\<open>allSearchParams\<close> of \<^verbatim>\<open>DiffCheckerView\<close>: a \<^verbatim>\<open>Set\<close> filled in a loop over the entries
  and, for each entry with \<^verbatim>\<open>searchParams\<close>, over its keys. A \<^verbatim>\<open>Set\<close> keeps insertion
  order and ignores a value it already has.
\<close>

definition Set_add :: "string list \<Rightarrow> string \<Rightarrow> string list" where
  "Set_add s k = (if k \<in> set s then s else s @ [k])"

definition allSearchParams :: "ParsedURL list \<Rightarrow> string list" where
  "allSearchParams parsedUrls =
     fold (\<lambda>url s. case searchParams url of
                      None \<Rightarrow> s
                    | Some obj \<Rightarrow> fold (\<lambda>k s'. Set_add s' k) (Object_keys obj) s)
          parsedUrls []"

text \<open>\<^verbatim>\<open>url.searchParams?.[param]\<close>.\<close>

definition param_read :: "ParsedURL \<Rightarrow> string \<Rightarrow> jsval" where
  "param_read url param =
     (case searchParams url of None \<Rightarrow> Undefined | Some obj \<Rightarrow> get_prop obj param)"

definition falsy :: "jsval \<Rightarrow> bool" where
  "falsy v = (v = Undefined \<or> v = Null \<or> v = Str [])"

text \<open>\<^verbatim>\<open>url.searchParams?.[param] || null\<close> of \<^verbatim>\<open>DiffCheckerView\<close>.\<close>

definition param_value :: "ParsedURL \<Rightarrow> string \<Rightarrow> jsval" where
  "param_value url param = (let v = param_read url param in if falsy v then Null else v)"

text \<open>\<^verbatim>\<open>url.searchParams?.[param] || "-"\<close> of the table in \<^verbatim>\<open>src/URLParser.tsx\<close>.\<close>

definition param_value_URLParser :: "ParsedURL \<Rightarrow> string \<Rightarrow> jsval" where
  "param_value_URLParser url param =
     (let v = param_read url param in if falsy v then Str ''-'' else v)"

text \<open>
  One row of the parameter table of \<^verbatim>\<open>DiffCheckerView\<close>: \<^verbatim>\<open>isDifferent\<close> of each cell,
  \<^verbatim>\<open>value !== firstValue\<close> with \<^verbatim>\<open>firstValue = values[0]\<close>.
\<close>

definition paramDiffs :: "ParsedURL list \<Rightarrow> string \<Rightarrow> bool list" where
  "paramDiffs parsedUrls param =
     (let vals = map (\<lambda>url. param_value url param) parsedUrls;
          firstValue = first vals
      in map (\<lambda>url. Some (param_value url param) \<noteq> firstValue) parsedUrls)"

text \<open>
  One row of the parameter table of \<^verbatim>\<open>src/URLParser.tsx\<close>: every cell of the row gets
  \<^verbatim>\<open>allValues.some((v) => v !== allValues[0])\<close>.
\<close>

definition paramDiffs_URLParser :: "ParsedURL list \<Rightarrow> string \<Rightarrow> bool list" where
  "paramDiffs_URLParser parsedUrls param =
     (let allValues = map (\<lambda>u. param_value_URLParser u param) parsedUrls
      in map (\<lambda>url. list_ex (\<lambda>v. Some v \<noteq> first allValues) allValues) parsedUrls)"

section \<open>The two states of a ParsedURL\<close>

text \<open>
  A success record has every structural field of the data model (\<^verbatim>\<open>href\<close>,
  \<^verbatim>\<open>protocol\<close>, \<^verbatim>\<open>username\<close>, \<^verbatim>\<open>password\<close>, \<^verbatim>\<open>host\<close>, \<^verbatim>\<open>hostname\<close>, \<^verbatim>\<open>port\<close>,
  \<^verbatim>\<open>pathname\<close>, \<^verbatim>\<open>search\<close>, \<^verbatim>\<open>searchParams\<close>, \<^verbatim>\<open>hash\<close>) and no \<^verbatim>\<open>error\<close>; a failure
  record has \<^verbatim>\<open>error\<close> and nothing else.
\<close>

definition success_record :: "ParsedURL \<Rightarrow> bool" where
  "success_record r =
     (href r \<noteq> None \<and> protocol r \<noteq> None \<and> username r \<noteq> None \<and> password r \<noteq> None
      \<and> host r \<noteq> None \<and> hostname r \<noteq> None \<and> port r \<noteq> None \<and> pathname r \<noteq> None
      \<and> search r \<noteq> None \<and> searchParams r \<noteq> None \<and> hash r \<noteq> None \<and> error r = None)"

definition failure_record :: "ParsedURL \<Rightarrow> bool" where
  "failure_record r =
     (error r \<noteq> None \<and> href r = None \<and> auth r = None \<and> protocol r = None
      \<and> username r = None \<and> password r = None \<and> host r = None \<and> hostname r = None
      \<and> port r = None \<and> pathname r = None \<and> search r = None \<and> searchParams r = None
      \<and> hash r = None)"

section \<open>The platform at the inputs of the examples\<close>

text \<open>
  Modelled from the spec: the platform's URL constructor, which is not code of the
  repository, at the example inputs. \<open>https_URL user path query pairs\<close> is the URL object
  of \<^verbatim>\<open>https://[user@]h<path><query>\<close>: host \<^verbatim>\<open>h\<close>, no password, no port, no fragment;
  by the spec's data model an absent credential, port, query or fragment is the empty
  string, and \<^verbatim>\<open>protocol\<close> includes the colon.
\<close>

definition https_URL :: "string \<Rightarrow> string \<Rightarrow> string \<Rightarrow> (string \<times> string) list \<Rightarrow> URL" where
  "https_URL user path query pairs =
     \<lparr>url_href = ''https://'' @ (if user = [] then [] else user @ ''@'') @ ''h'' @ path @ query,
      url_protocol = ''https:'', url_username = user, url_password = [],
      url_host = ''h'', url_hostname = ''h'', url_port = [], url_pathname = path,
      url_search = query, url_searchParams = pairs, url_hash = []\<rparr>"

text \<open>
  Modelled from the spec: the strings of the examples that the platform's URL constructor
  accepts, each with its URL object.
\<close>

definition example_URLs :: "(string \<times> URL) list" where
  "example_URLs =
     [(''https://h/path'', https_URL [] ''/path'' [] []),
      (''https://h/'', https_URL [] ''/'' [] []),
      (''https://-@h/'', https_URL ''-'' ''/'' [] []),
      (''https://h/?x=1'', https_URL [] ''/'' ''?x=1'' [(''x'', ''1'')]),
      (''https://h/?y=2'', https_URL [] ''/'' ''?y=2'' [(''y'', ''2'')]),
      (''https://h/?a='', https_URL [] ''/'' ''?a='' [(''a'', [])]),
      (''https://h/?a=1&a=2'', https_URL [] ''/'' ''?a=1&a=2'' [(''a'', ''1''), (''a'', ''2'')]),
      (''https://h/?__proto__=1&__proto__=2'',
         https_URL [] ''/'' ''?__proto__=1&__proto__=2''
           [(''__proto__'', ''1''), (''__proto__'', ''2'')])]"

text \<open>
  Modelled from the spec: the platform's URL constructor restricted to the examples. A
  string outside \<open>example_URLs\<close>, such as \<^verbatim>\<open>bad\<close> (no scheme), throws a
  \<^verbatim>\<open>TypeError\<close>; the table stands for the platform only at the strings the examples
  below name.
\<close>

definition new_URL_examples :: "string \<Rightarrow> thrown + URL" where
  "new_URL_examples s =
     (case map_of example_URLs s of
        Some u \<Rightarrow> Inr u
      | None \<Rightarrow> Inl (Error_instance ''Invalid URL''))"

section \<open>Shape of the diff maps\<close>

lemma reduce_from_diff:
  "reduce_from (\<lambda>m val i. m(i \<mapsto> (Some val \<noteq> b))) m0 n xs
     = (\<lambda>j. if n \<le> j \<and> j < n + length xs then Some (Some (xs ! (j - n)) \<noteq> b) else m0 j)"
proof (induction xs arbitrary: m0 n)
  case Nil
  then show ?case by (auto simp: fun_eq_iff)
next
  case (Cons x xs)
  show ?case
    unfolding reduce_from.simps Cons.IH
    by (auto simp: fun_eq_iff nth_Cons')
qed

lemma first_nth: "first xs = (if xs = [] then None else Some (xs ! 0))"
  by (cases xs) (simp_all add: first_def)

lemma getDiffMap_at:
  "getDiffMap parsedUrls k i =
     (if i < length parsedUrls
      then Some (or_dash (get_field (parsedUrls ! i) k) \<noteq> or_dash (get_field (parsedUrls ! 0) k))
      else None)"
  by (auto simp: getDiffMap_def reduce_def reduce_from_diff first_nth Let_def)

lemma getComponentDiffs_at:
  "getComponentDiffs parsedUrls k i =
     (if i < length parsedUrls
      then Some (or_empty (get_field (parsedUrls ! i) k) \<noteq> or_empty (get_field (parsedUrls ! 0) k))
      else None)"
  by (auto simp: getComponentDiffs_def reduce_def reduce_from_diff first_nth Let_def)

section \<open>Baseline\<close>

text \<open>
  C5. For every non-empty list of entries and every component key, both structural diff
  functions map index 0, the baseline, to \<open>False\<close>: the baseline is never flagged as
  different from itself.
\<close>

theorem baseline_self_diff_false:
  assumes "parsedUrls \<noteq> []"
  shows "getDiffMap parsedUrls k 0 = Some False \<and> getComponentDiffs parsedUrls k 0 = Some False"
  using assms by (simp add: getDiffMap_at getComponentDiffs_at)

theorem baseline_self_diff_false_witness:
  "getDiffMap [parseUrl_URLParser new_URL_examples ''bad'',
               parseUrl_URLParser new_URL_examples ''https://h/path''] Hostname 0 = Some False
   \<and> getComponentDiffs [parseUrl_URLParser new_URL_examples ''bad'',
               parseUrl_URLParser new_URL_examples ''https://h/path''] Hostname 0 = Some False"
  by (rule baseline_self_diff_false) simp

section \<open>parseUrl returns one of two states\<close>

lemma parseUrl_Inr:
  "new_URL s = Inr u \<Longrightarrow> success_record (parseUrl new_URL s) \<and> \<not> failure_record (parseUrl new_URL s)"
  by (simp add: parseUrl_def success_record_def failure_record_def Let_def)

lemma parseUrl_Inl:
  "new_URL s = Inl e \<Longrightarrow> parseUrl new_URL s = failure (error_message e)"
  by (simp add: parseUrl_def)

lemma parseUrl_URLParser_Inr:
  "new_URL s = Inr u \<Longrightarrow>
     success_record (parseUrl_URLParser new_URL s) \<and> \<not> failure_record (parseUrl_URLParser new_URL s)"
  by (simp add: parseUrl_URLParser_def success_record_def failure_record_def Let_def)

lemma parseUrl_URLParser_Inl:
  "new_URL s = Inl e \<Longrightarrow> parseUrl_URLParser new_URL s = failure (error_message e)"
  by (simp add: parseUrl_URLParser_def)

lemma failure_is_failure_record:
  "failure_record (failure msg) \<and> \<not> success_record (failure msg)"
  by (simp add: failure_def success_record_def failure_record_def)

text \<open>
  C7. Whatever the platform's constructor does on the input, the record \<^verbatim>\<open>parseUrl\<close>
  returns is in exactly one of the two states: when the constructor returns, a success
  record (every structural field present, no \<^verbatim>\<open>error\<close>) that is not a failure record;
  when it throws, a failure record (only \<^verbatim>\<open>error\<close> present) that is not a success
  record. This holds for both versions of \<^verbatim>\<open>parseUrl\<close>.
\<close>

theorem parseUrl_two_states:
  "(case new_URL s of
      Inr u \<Rightarrow> success_record (parseUrl new_URL s) \<and> \<not> failure_record (parseUrl new_URL s)
    | Inl e \<Rightarrow> failure_record (parseUrl new_URL s) \<and> \<not> success_record (parseUrl new_URL s))
   \<and> (case new_URL s of
      Inr u \<Rightarrow> success_record (parseUrl_URLParser new_URL s)
                 \<and> \<not> failure_record (parseUrl_URLParser new_URL s)
    | Inl e \<Rightarrow> failure_record (parseUrl_URLParser new_URL s)
                 \<and> \<not> success_record (parseUrl_URLParser new_URL s))"
  by (cases "new_URL s")
    (simp_all add: parseUrl_Inr parseUrl_Inl parseUrl_URLParser_Inr parseUrl_URLParser_Inl
      failure_is_failure_record)

lemma new_URL_examples_simps:
  "new_URL_examples ''bad'' = Inl (Error_instance ''Invalid URL'')"
  "new_URL_examples ''https://h/path'' = Inr (https_URL [] ''/path'' [] [])"
  "new_URL_examples ''https://h/'' = Inr (https_URL [] ''/'' [] [])"
  "new_URL_examples ''https://-@h/'' = Inr (https_URL ''-'' ''/'' [] [])"
  "new_URL_examples ''https://h/?x=1'' = Inr (https_URL [] ''/'' ''?x=1'' [(''x'', ''1'')])"
  "new_URL_examples ''https://h/?y=2'' = Inr (https_URL [] ''/'' ''?y=2'' [(''y'', ''2'')])"
  "new_URL_examples ''https://h/?a='' = Inr (https_URL [] ''/'' ''?a='' [(''a'', [])])"
  "new_URL_examples ''https://h/?a=1&a=2''
     = Inr (https_URL [] ''/'' ''?a=1&a=2'' [(''a'', ''1''), (''a'', ''2'')])"
  "new_URL_examples ''https://h/?__proto__=1&__proto__=2''
     = Inr (https_URL [] ''/'' ''?__proto__=1&__proto__=2''
              [(''__proto__'', ''1''), (''__proto__'', ''2'')])"
  by (simp_all add: new_URL_examples_def example_URLs_def)

theorem parseUrl_two_states_witness:
  "(success_record (parseUrl new_URL_examples ''https://h/path'')
      \<and> \<not> failure_record (parseUrl new_URL_examples ''https://h/path''))
   \<and> (failure_record (parseUrl new_URL_examples ''bad'')
      \<and> \<not> success_record (parseUrl new_URL_examples ''bad''))"
  using parseUrl_two_states [of new_URL_examples "''https://h/path''"]
    parseUrl_two_states [of new_URL_examples "''bad''"]
  by (simp add: new_URL_examples_simps)

lemmas eval_defs = parseUrl_def parseUrl_URLParser_def failure_def error_message_def https_URL_def
  collect_searchParams_def assign_def Let_def or_dash_def or_empty_def

section \<open>parseUrl turns every throw into a failure record\<close>



section \<open>The two structural diff functions compared\<close>

lemma defaults_agree:
  "x \<noteq> Some ''-'' \<Longrightarrow> y \<noteq> Some ''-'' \<Longrightarrow> (or_dash x = or_dash y) = (or_empty x = or_empty y)"
  by (auto simp: or_dash_def or_empty_def split: option.splits)

text \<open>
  C9, as stated, fails: with the entries of \<^verbatim>\<open>https://h/\<close> (no username) and
  \<^verbatim>\<open>https://-@h/\<close> (username \<^verbatim>\<open>-\<close>), \<^verbatim>\<open>getDiffMap\<close> turns the empty username into
  \<^verbatim>\<open>-\<close> and does not flag entry 1, while \<^verbatim>\<open>getComponentDiffs\<close> flags it.
\<close>

theorem diff_functions_differ_on_dash:
  "getDiffMap [parseUrl new_URL_examples ''https://h/'', parseUrl new_URL_examples ''https://-@h/'']
     Username 1 = Some False
   \<and> getComponentDiffs [parseUrl new_URL_examples ''https://h/'', parseUrl new_URL_examples ''https://-@h/'']
     Username 1 = Some True"
  by (simp add: getDiffMap_at getComponentDiffs_at new_URL_examples_simps eval_defs)

text \<open>
  C9, amended. For every list of entries and every key for which no entry's value is the
  one-character string \<^verbatim>\<open>-\<close>, \<^verbatim>\<open>getDiffMap\<close> and \<^verbatim>\<open>getComponentDiffs\<close> return the same
  DiffMap.
\<close>

theorem diff_functions_agree_without_dash:
  assumes "\<forall>url \<in> set parsedUrls. get_field url k \<noteq> Some ''-''"
  shows "getDiffMap parsedUrls k = getComponentDiffs parsedUrls k"
proof
  fix i
  show "getDiffMap parsedUrls k i = getComponentDiffs parsedUrls k i"
  proof (cases "i < length parsedUrls")
    case True
    then have "parsedUrls ! i \<in> set parsedUrls" and "parsedUrls ! 0 \<in> set parsedUrls"
      using nth_mem [of i parsedUrls] by (cases parsedUrls; simp)+
    with assms have "get_field (parsedUrls ! i) k \<noteq> Some ''-''"
      and "get_field (parsedUrls ! 0) k \<noteq> Some ''-''"
      by blast+
    then show ?thesis
      using True by (simp add: getDiffMap_at getComponentDiffs_at defaults_agree)
  next
    case False
    then show ?thesis by (simp add: getDiffMap_at getComponentDiffs_at)
  qed
qed

theorem diff_functions_agree_without_dash_witness:
  "getDiffMap [parseUrl new_URL_examples ''bad'', parseUrl new_URL_examples ''https://h/path''] Port
   = getComponentDiffs [parseUrl new_URL_examples ''bad'', parseUrl new_URL_examples ''https://h/path''] Port"
  by (rule diff_functions_agree_without_dash) (simp add: new_URL_examples_simps eval_defs)

end
